theory Spec2Isabelle
  imports Main
begin

section \<open>The font analyzer's request orchestration (typography/src/App.tsx)\<close>

text \<open>
  The development embeds \<open>handleSubmit\<close> of \<open>App.tsx\<close>: the validation of the title,
  the two guards (\<open>inFlightRef\<close>, \<open>lastPromptRef\<close>), the retry loop around \<open>fetch\<close>, the
  handling of the response and the \<open>catch\<close>/\<open>finally\<close> blocks.

  Conventions of the embedding:
  \<^item> a JavaScript string is a \<open>string\<close>; a \<open>char\<close> stands for the code unit of the same
    number (U+0000 to U+00FF);
  \<^item> React state (\<open>prompt\<close>, \<open>result\<close>, \<open>loading\<close>, \<open>error\<close>) and the refs are fields of one
    record, passed in and returned; a \<open>setX\<close> call is a field update;
  \<^item> a thrown value is a value of type \<open>thrown\<close>, and a block that may throw returns a sum
    with \<open>Inl\<close> for the throw;
  \<^item> what the function does to the outside (network calls, timers, console, the form
    event) is returned as a list of events in program order;
  \<^item> the network is a function from the attempt index of the retry loop to what \<open>fetch\<close>
    does at that attempt, so every \<open>await\<close> settles;
  \<^item> the objects stored in \<open>result\<close> carry an address, so that "the same object" and
    "an equal object" are different statements.
\<close>

subsection \<open>Strings\<close>

text \<open>
  \<open>String.prototype.trim\<close> removes white space and line terminators from both ends.
  Among the code units below 256 these are TAB, LF, VT, FF, CR, SPACE and NBSP.
\<close>

definition is_ws :: "char \<Rightarrow> bool" where
  "is_ws c = (of_char c \<in> {9, 10, 11, 12, 13, 32, 160 :: nat})"

definition trim :: "string \<Rightarrow> string" where
  "trim s = rev (dropWhile is_ws (rev (dropWhile is_ws s)))"

text \<open>\<open>s.startsWith(t)\<close> and \<open>s.includes(t)\<close> (named \<open>includes_str\<close> here).\<close>

fun startsWith :: "string \<Rightarrow> string \<Rightarrow> bool" where
  "startsWith s [] = True"
| "startsWith [] (c # cs) = False"
| "startsWith (d # ds) (c # cs) = (d = c \<and> startsWith ds cs)"

fun includes_str :: "string \<Rightarrow> string \<Rightarrow> bool" where
  "includes_str [] t = (t = [])"
| "includes_str (c # cs) t = (startsWith (c # cs) t \<or> includes_str cs t)"

text \<open>The decimal rendering of a status code in a template literal.\<close>

definition digit :: "nat \<Rightarrow> char" where
  "digit d = ''0123456789'' ! (d mod 10)"

function string_of_nat :: "nat \<Rightarrow> string" where
  "string_of_nat n = (if n < 10 then [digit n] else string_of_nat (n div 10) @ [digit n])"
  by pat_completeness auto
termination
  by (relation "measure id") auto

declare string_of_nat.simps [simp del]

subsection \<open>Data model (types.ts and the fetch API)\<close>

record FontSuggestion =
  font_name :: string
  reason :: string

text \<open>A \<open>FontSuggestion\<close> object on the heap: its address and its fields.\<close>

datatype suggestion_obj = Obj (addr: nat) (val: FontSuggestion)

text \<open>
  A thrown value is an \<open>Error\<close> with its \<open>message\<close>, or a value that is not an instance
  of \<open>Error\<close>.
\<close>

datatype thrown = Error string | NonError

text \<open>
  What \<open>response.json()\<close> settles to: it rejects, or it resolves with the parsed body. The
  program reads the parsed body at two declared types, \<open>{ details?: string }\<close> on the
  error path and \<open>FontSuggestion\<close> on the success path; the parsed body is given by what
  it holds at each.
\<close>

datatype json_result = JsonThrows thrown | JsonValue "string option" FontSuggestion

record Response =
  status :: nat
  json :: json_result

text \<open>\<open>Response.ok\<close> is true for the statuses 200 to 299.\<close>

definition ok :: "Response \<Rightarrow> bool" where
  "ok r = (200 \<le> status r \<and> status r \<le> 299)"

datatype fetch_outcome = Rejects thrown | Resolves Response

type_synonym network = "nat \<Rightarrow> fetch_outcome"

datatype event =
    PreventDefault
  | Fetch string
  | Timeout nat
  | ConsoleWarn string
  | ConsoleError string

record app_state =
  prompt :: string
  result :: "suggestion_obj option"
  loading :: bool
  error :: "string option"
  inFlightRef :: bool
  lastPromptRef :: "string option"
  nextAddr :: nat

subsection \<open>Constants\<close>

definition API_URL :: string where
  "API_URL = ''http://localhost:3000/api/suggest-font''"

definition MOCK_FONT_SUGGESTION :: suggestion_obj where
  "MOCK_FONT_SUGGESTION = Obj 0
     \<lparr>font_name = ''Press Start 2P'',
      reason = ''Network connection failed. Showing mock response for debugging. The title suggests a clear, nostalgic 8-bit style.''\<rparr>"

definition maxRetries :: nat where
  "maxRetries = 3"

text \<open>The state of the component when it is mounted.\<close>

definition initial_state :: app_state where
  "initial_state =
     \<lparr>prompt = [], result = None, loading = False, error = None,
      inFlightRef = False, lastPromptRef = None, nextAddr = 1\<rparr>"

subsection \<open>The retry loop (App.tsx, lines 77 to 97)\<close>

text \<open>
  \<open>retry_loop net p i response\<close> is the \<open>for\<close> loop from index \<open>i\<close> on, with the current
  value of the variable \<open>response\<close>. It returns the throw that leaves the loop, or the
  value of \<open>response\<close> after the loop, and the events in order.
\<close>

function retry_loop ::
  "network \<Rightarrow> string \<Rightarrow> nat \<Rightarrow> Response option \<Rightarrow> (thrown + Response option) \<times> event list"
where
  "retry_loop net p i response =
     (if i < maxRetries then
        (case net i of
           Resolves r \<Rightarrow>
             if ok r then (Inr (Some r), [Fetch p])
             else if status r = 404 \<or> status r \<ge> 500 then
               (case retry_loop net p (Suc i) (Some r) of
                  (out, tr) \<Rightarrow> (out, Fetch p # Timeout (2 ^ i * 500) # tr))
             else (Inr (Some r), [Fetch p])
         | Rejects fetchErr \<Rightarrow>
             if i = maxRetries - 1 then (Inl fetchErr, [Fetch p])
             else
               (case retry_loop net p (Suc i) response of
                  (out, tr) \<Rightarrow> (out, Fetch p # Timeout (2 ^ i * 500) # tr)))
      else (Inr response, []))"
  by pat_completeness auto
termination
  by (relation "measure (\<lambda>(net, p, i, response). maxRetries - i)") auto

declare retry_loop.simps [simp del]

subsection \<open>After the loop (lines 99 to 107)\<close>

text \<open>
  \<open>errData\<close> starts as \<open>{}\<close>; \<open>response!.json()\<close> is tried and any throw ignored (with
  \<open>response\<close> null the call itself throws). The message is \<open>errData.details\<close> unless
  that is undefined or the empty string.
\<close>

definition errData_details :: "Response option \<Rightarrow> string option" where
  "errData_details response =
     (case response of
        None \<Rightarrow> None
      | Some r \<Rightarrow> (case json r of JsonThrows e \<Rightarrow> None | JsonValue d data \<Rightarrow> d))"

definition http_error :: "Response option \<Rightarrow> string" where
  "http_error response =
     ''HTTP error! status: '' @
       (case response of Some r \<Rightarrow> string_of_nat (status r) | None \<Rightarrow> ''Network Error'')"

definition error_message :: "Response option \<Rightarrow> string" where
  "error_message response =
     (case errData_details response of
        Some d \<Rightarrow> if d \<noteq> [] then d else http_error response
      | None \<Rightarrow> http_error response)"

text \<open>
  Lines 77 to 107 as one unit, the request for a suggestion: the loop, the throw for a
  missing or unsuccessful response, and the parse of a successful one.
\<close>

definition fetchSuggestion :: "network \<Rightarrow> string \<Rightarrow> (thrown + FontSuggestion) \<times> event list" where
  "fetchSuggestion net p =
     (case retry_loop net p 0 None of
        (Inl e, tr) \<Rightarrow> (Inl e, tr)
      | (Inr response, tr) \<Rightarrow>
          (case response of
             None \<Rightarrow> (Inl (Error (error_message response)), tr)
           | Some r \<Rightarrow>
               if ok r then
                 (case json r of
                    JsonThrows e \<Rightarrow> (Inl e, tr)
                  | JsonValue d data \<Rightarrow> (Inr data, tr))
               else (Inl (Error (error_message response)), tr)))"

subsection \<open>The state updates (lines 108 to 138)\<close>

text \<open>The updater given to \<open>setResult\<close>: the previous object if its two fields agree.\<close>

definition keep_or_replace :: "suggestion_obj option \<Rightarrow> suggestion_obj \<Rightarrow> suggestion_obj option" where
  "keep_or_replace prev new =
     (case prev of
        None \<Rightarrow> Some new
      | Some old \<Rightarrow>
          if font_name (val old) = font_name (val new) \<and> reason (val old) = reason (val new)
          then prev else Some new)"

text \<open>
  The \<open>try\<close> block: a throw leaves the state as it was; otherwise the parsed body is a new
  object, offered to \<open>setResult\<close>, and the title is remembered.
\<close>

definition try_block :: "network \<Rightarrow> string \<Rightarrow> app_state \<Rightarrow> (thrown + app_state) \<times> event list" where
  "try_block net currentPrompt s =
     (case fetchSuggestion net currentPrompt of
        (Inl e, tr) \<Rightarrow> (Inl e, tr)
      | (Inr data, tr) \<Rightarrow>
          (Inr (s\<lparr>result := keep_or_replace (result s) (Obj (nextAddr s) data),
                  nextAddr := Suc (nextAddr s),
                  lastPromptRef := Some currentPrompt\<rparr>), tr))"

text \<open>
  Line 117: the message of a caught \<open>Error\<close>, or \<open>Unknown error\<close>. Line 119: a failure
  counts as a network failure by what its message contains.
\<close>

definition errorMsg :: "thrown \<Rightarrow> string" where
  "errorMsg err = (case err of Error m \<Rightarrow> m | NonError \<Rightarrow> ''Unknown error'')"

definition network_failure :: "string \<Rightarrow> bool" where
  "network_failure m = (includes_str m ''Failed to fetch'' \<or> includes_str m ''NetworkError'')"

text \<open>The template literal of line 128.\<close>

definition mock_active_message :: string where
  "mock_active_message =
     ''[MOCK ACTIVE] API server not found at '' @ API_URL @
     ''. Displaying mock font: '' @ font_name (val MOCK_FONT_SUGGESTION) @ ''.''"

text \<open>
  The \<open>catch\<close> block (lines 116 to 134). In the fallback branch the warning and the wait
  of 500 ms come first and the three updates after them; the block is one step here, so
  the updates are those of the returned state and the wait is the last event.
\<close>

definition catch_block :: "thrown \<Rightarrow> string \<Rightarrow> app_state \<Rightarrow> app_state \<times> event list" where
  "catch_block err currentPrompt s =
     (if network_failure (errorMsg err) then
        (s\<lparr>result := keep_or_replace (result s) MOCK_FONT_SUGGESTION,
           error := Some mock_active_message,
           lastPromptRef := Some currentPrompt\<rparr>,
         [ConsoleWarn ''Network Error detected. Falling back to mock response.'', Timeout 500])
      else
        (s\<lparr>error := Some (''Server Error: '' @ errorMsg err @ ''.'')\<rparr>,
         [ConsoleError ''API Error:'']))"

text \<open>The \<open>finally\<close> block (lines 135 to 138).\<close>

definition finally_block :: "app_state \<Rightarrow> app_state" where
  "finally_block s = s\<lparr>inFlightRef := False, loading := False\<rparr>"

subsection \<open>\<open>handleSubmit\<close> (lines 51 to 141)\<close>

text \<open>\<open>initialPrompt ?? prompt\<close>, and its trimmed form \<open>currentPrompt\<close> (line 55).\<close>

definition title_of :: "app_state \<Rightarrow> string option \<Rightarrow> string" where
  "title_of s initialPrompt = (case initialPrompt of Some t \<Rightarrow> t | None \<Rightarrow> prompt s)"

definition currentPrompt_of :: "app_state \<Rightarrow> string option \<Rightarrow> string" where
  "currentPrompt_of s initialPrompt = trim (title_of s initialPrompt)"

text \<open>
  The part that runs before the first \<open>await\<close> (lines 53 to 72). It returns the state and,
  when the function goes on to the request, the trimmed title.
\<close>

definition start :: "app_state \<Rightarrow> string option \<Rightarrow> app_state \<times> string option" where
  "start s initialPrompt =
     (let currentPrompt = currentPrompt_of s initialPrompt in
      if currentPrompt = [] then (s\<lparr>error := Some ''Please enter a title to analyze.''\<rparr>, None)
      else if inFlightRef s then (s, None)
      else if (case lastPromptRef s of None \<Rightarrow> False | Some l \<Rightarrow> l \<noteq> [] \<and> l = currentPrompt)
        then (s, None)
      else (s\<lparr>inFlightRef := True, loading := True, error := None\<rparr>, Some currentPrompt))"

text \<open>The part from the first \<open>await\<close> on: \<open>try\<close>, \<open>catch\<close>, \<open>finally\<close>.\<close>

definition resume :: "network \<Rightarrow> string \<Rightarrow> app_state \<Rightarrow> app_state \<times> event list" where
  "resume net currentPrompt s =
     (case try_block net currentPrompt s of
        (Inr s', tr) \<Rightarrow> (finally_block s', tr)
      | (Inl err, tr) \<Rightarrow>
          (case catch_block err currentPrompt s of
             (s', tr') \<Rightarrow> (finally_block s', tr @ tr')))"

definition handleSubmit ::
  "network \<Rightarrow> bool \<Rightarrow> string option \<Rightarrow> app_state \<Rightarrow> app_state \<times> event list"
where
  "handleSubmit net e initialPrompt s =
     (let pd = (if e then [PreventDefault] else []) in
      case start s initialPrompt of
        (s', None) \<Rightarrow> (s', pd)
      | (s', Some currentPrompt) \<Rightarrow>
          (case resume net currentPrompt s' of (s'', tr) \<Rightarrow> (s'', pd @ tr)))"

text \<open>
  A call of \<open>handleSubmit\<close> is \<open>start\<close> and then, at some later time, \<open>resume\<close>; a
  second call that arrives in between sees the state that \<open>start\<close> left.
\<close>

text \<open>
  A call passes the three checks of lines 56 to 68 when its trimmed title is not empty,
  no request is in flight and the title is not the remembered one.
\<close>

definition passes_checks :: "app_state \<Rightarrow> string option \<Rightarrow> bool" where
  "passes_checks s initialPrompt =
     (currentPrompt_of s initialPrompt \<noteq> [] \<and> \<not> inFlightRef s \<and>
      lastPromptRef s \<noteq> Some (currentPrompt_of s initialPrompt))"

text \<open>
  \<open>lastPromptRef\<close> is only ever assigned a trimmed title that passed the first check, so
  it never holds the empty string.
\<close>

definition dedup_ok :: "app_state \<Rightarrow> bool" where
  "dedup_ok s = (lastPromptRef s \<noteq> Some [])"

text \<open>
  Addresses are handed out in increasing order, the fallback object has address 0, and
  the displayed object was allocated before the next address.
\<close>

definition heap_ok :: "app_state \<Rightarrow> bool" where
  "heap_ok s = (0 < nextAddr s \<and> (\<forall>obj\<in>set_option (result s). addr obj < nextAddr s))"

text \<open>What the form event contributes to the events of a call.\<close>

definition form_events :: "bool \<Rightarrow> event list" where
  "form_events e = (if e then [PreventDefault] else [])"

subsection \<open>Scenarios\<close>

text \<open>
  The state in which a first call with the title \<open>Retro Arcade\<close> has run up to its
  \<open>fetch\<close> and is waiting for the response.
\<close>

definition in_flight_state :: app_state where
  "in_flight_state = fst (start initial_state (Some ''Retro Arcade''))"

text \<open>A network on which every \<open>fetch\<close> rejects with the browser's \<open>TypeError\<close>.\<close>

definition offline :: network where
  "offline = (\<lambda>i. Rejects (Error ''Failed to fetch''))"

text \<open>
  A gateway answers 503 with a page that is not JSON; the service answers 200 with a
  suggestion. \<open>recovering\<close> is the sequence 503, 503, 200.
\<close>

definition service_unavailable :: Response where
  "service_unavailable =
     \<lparr>status = 503, json = JsonThrows (Error ''Unexpected token < in JSON at position 0'')\<rparr>"

definition suggestion_response :: Response where
  "suggestion_response =
     \<lparr>status = 200,
      json = JsonValue None \<lparr>font_name = ''Lobster'', reason = ''Playful and bold.''\<rparr>\<rparr>"

definition always_unavailable :: network where
  "always_unavailable = (\<lambda>i. Resolves service_unavailable)"

definition recovering :: network where
  "recovering = (\<lambda>i. if i < 2 then Resolves service_unavailable else Resolves suggestion_response)"

definition always_suggesting :: network where
  "always_suggesting = (\<lambda>i. Resolves suggestion_response)"

text \<open>
  Error responses with a body \<open>{ error, details }\<close>, as the server of the repository sends
  them. (The \<open>FontSuggestion\<close> view of such a body is never read.)
\<close>

definition error_body :: "string \<Rightarrow> json_result" where
  "error_body d = JsonValue (Some d) \<lparr>font_name = [], reason = []\<rparr>"

definition bad_request :: Response where
  "bad_request = \<lparr>status = 400, json = error_body ''Title too long''\<rparr>"

definition bad_request_fetch :: Response where
  "bad_request_fetch = \<lparr>status = 400, json = error_body ''Failed to fetch the model list''\<rparr>"

definition upstream_error :: Response where
  "upstream_error =
     \<lparr>status = 500, json = error_body ''NetworkError when attempting to fetch resource.''\<rparr>"

definition refusing :: network where
  "refusing = (\<lambda>i. Resolves bad_request)"

definition refusing_fetch :: network where
  "refusing_fetch = (\<lambda>i. Resolves bad_request_fetch)"

definition upstream_down :: network where
  "upstream_down = (\<lambda>i. Resolves upstream_error)"

text \<open>A service that answers 200 with another suggestion.\<close>

definition restyled_response :: Response where
  "restyled_response =
     \<lparr>status = 200,
      json = JsonValue None \<lparr>font_name = ''Orbitron'', reason = ''Geometric and futuristic.''\<rparr>\<rparr>"

definition always_restyling :: network where
  "always_restyling = (\<lambda>i. Resolves restyled_response)"

text \<open>The state after the fallback for the title \<open>Retro Arcade\<close>, from the initial state.\<close>

definition fallback_state :: app_state where
  "fallback_state =
     initial_state\<lparr>result := Some MOCK_FONT_SUGGESTION, error := Some mock_active_message,
       lastPromptRef := Some ''Retro Arcade''\<rparr>"

text \<open>The state after the suggestion of \<open>suggestion_response\<close> for the title \<open>Retro Arcade\<close>.\<close>

definition suggested_state :: app_state where
  "suggested_state =
     initial_state\<lparr>result := Some (Obj 1 \<lparr>font_name = ''Lobster'', reason = ''Playful and bold.''\<rparr>),
       lastPromptRef := Some ''Retro Arcade'', nextAddr := 2\<rparr>"

subsection \<open>Reading an event list\<close>

fun fetches :: "event list \<Rightarrow> string list" where
  "fetches [] = []"
| "fetches (Fetch p # tr) = p # fetches tr"
| "fetches (ev # tr) = fetches tr"

fun delays :: "event list \<Rightarrow> nat list" where
  "delays [] = []"
| "delays (Timeout ms # tr) = ms # delays tr"
| "delays (ev # tr) = delays tr"

section \<open>Basic facts\<close>

subsection \<open>Trimming\<close>

lemma dropWhile_ws_all: "(dropWhile is_ws t = []) = (\<forall>c\<in>set t. is_ws c)"
  by (simp add: dropWhile_eq_Nil_conv)

lemma dropWhile_head_not_ws: "\<forall>c\<in>set (dropWhile is_ws t). is_ws c \<Longrightarrow> dropWhile is_ws t = []"
proof (rule ccontr)
  assume all: "\<forall>c\<in>set (dropWhile is_ws t). is_ws c" and ne: "dropWhile is_ws t \<noteq> []"
  from ne have "\<not> is_ws (hd (dropWhile is_ws t))" by (rule hd_dropWhile)
  moreover from ne have "hd (dropWhile is_ws t) \<in> set (dropWhile is_ws t)" by simp
  ultimately show False using all by blast
qed

lemma trim_Nil_iff: "(trim t = []) = (\<forall>c\<in>set t. is_ws c)"
proof -
  have "(trim t = []) = (dropWhile is_ws (rev (dropWhile is_ws t)) = [])"
    unfolding trim_def by (rule rev_is_Nil_conv)
  also have "\<dots> = (\<forall>c\<in>set (rev (dropWhile is_ws t)). is_ws c)"
    by (rule dropWhile_ws_all)
  also have "\<dots> = (\<forall>c\<in>set (dropWhile is_ws t). is_ws c)"
    by (simp only: set_rev)
  also have "\<dots> = (dropWhile is_ws t = [])"
  proof
    assume "\<forall>c\<in>set (dropWhile is_ws t). is_ws c"
    then show "dropWhile is_ws t = []" by (rule dropWhile_head_not_ws)
  next
    assume "dropWhile is_ws t = []"
    then show "\<forall>c\<in>set (dropWhile is_ws t). is_ws c" by (simp only: set_simps ball_empty)
  qed
  also have "\<dots> = (\<forall>c\<in>set t. is_ws c)"
    by (rule dropWhile_ws_all)
  finally show ?thesis .
qed

subsection \<open>The checks at the start of a call\<close>

lemma start_empty:
  "currentPrompt_of s ip = [] \<Longrightarrow>
   start s ip = (s\<lparr>error := Some ''Please enter a title to analyze.''\<rparr>, None)"
  by (simp add: start_def)

lemma start_in_flight:
  "currentPrompt_of s ip \<noteq> [] \<Longrightarrow> inFlightRef s \<Longrightarrow> start s ip = (s, None)"
  by (simp add: start_def)

lemma start_deduped:
  "currentPrompt_of s ip \<noteq> [] \<Longrightarrow> lastPromptRef s = Some (currentPrompt_of s ip) \<Longrightarrow>
   start s ip = (s, None)"
  by (simp add: start_def Let_def)

lemma start_passes:
  "passes_checks s ip \<Longrightarrow>
   start s ip =
     (s\<lparr>inFlightRef := True, loading := True, error := None\<rparr>, Some (currentPrompt_of s ip))"
  by (cases "lastPromptRef s") (simp_all add: start_def passes_checks_def Let_def)

lemma handleSubmit_stopped:
  "start s ip = (s', None) \<Longrightarrow> handleSubmit net e ip s = (s', form_events e)"
  by (simp add: handleSubmit_def form_events_def)

lemma handleSubmit_same_title:
  assumes "currentPrompt_of s ip \<noteq> []" and "lastPromptRef s = Some (currentPrompt_of s ip)"
  shows "handleSubmit net e ip s = (s, form_events e)
         \<and> fetches (snd (handleSubmit net e ip s)) = []"
  using assms by (simp add: handleSubmit_stopped start_deduped form_events_def)

lemma handleSubmit_passes:
  assumes p: "passes_checks s ip"
  shows "handleSubmit net e ip s =
     (fst (resume net (currentPrompt_of s ip) (s\<lparr>inFlightRef := True, loading := True, error := None\<rparr>)),
      form_events e @
      snd (resume net (currentPrompt_of s ip) (s\<lparr>inFlightRef := True, loading := True, error := None\<rparr>)))"
proof -
  obtain s2 tr where r:
    "resume net (currentPrompt_of s ip) (s\<lparr>inFlightRef := True, loading := True, error := None\<rparr>) = (s2, tr)"
    by (cases "resume net (currentPrompt_of s ip) (s\<lparr>inFlightRef := True, loading := True, error := None\<rparr>)")
  show ?thesis
    by (simp only: handleSubmit_def start_passes [OF p] r form_events_def Let_def
        prod.case option.case fst_conv snd_conv)
qed

subsection \<open>Events, and the rest of a call\<close>

lemma fetches_append: "fetches (xs @ ys) = fetches xs @ fetches ys"
  by (induction xs rule: fetches.induct) simp_all

lemma delays_append: "delays (xs @ ys) = delays xs @ delays ys"
  by (induction xs rule: delays.induct) simp_all

lemma fetches_form_events: "fetches (form_events e) = []"
  by (simp add: form_events_def)

lemma resume_success:
  "fst (fetchSuggestion net p) = Inr data \<Longrightarrow>
   resume net p s =
     (finally_block
        (s\<lparr>result := keep_or_replace (result s) (Obj (nextAddr s) data),
           nextAddr := Suc (nextAddr s), lastPromptRef := Some p\<rparr>),
      snd (fetchSuggestion net p))"
  by (cases "fetchSuggestion net p") (simp add: resume_def try_block_def)

lemma resume_failure:
  "fst (fetchSuggestion net p) = Inl err \<Longrightarrow>
   resume net p s =
     (finally_block (fst (catch_block err p s)),
      snd (fetchSuggestion net p) @ snd (catch_block err p s))"
  by (cases "fetchSuggestion net p") (simp add: resume_def try_block_def split: prod.splits)

lemma finally_block_simps:
  "inFlightRef (finally_block s) = False" "loading (finally_block s) = False"
  "result (finally_block s) = result s" "error (finally_block s) = error s"
  "lastPromptRef (finally_block s) = lastPromptRef s" "prompt (finally_block s) = prompt s"
  "nextAddr (finally_block s) = nextAddr s"
  by (simp_all add: finally_block_def)

lemma resume_clears:
  "\<not> inFlightRef (fst (resume net p s)) \<and> \<not> loading (fst (resume net p s))"
proof (cases "fst (fetchSuggestion net p)")
  case (Inl err)
  then show ?thesis by (simp add: resume_failure finally_block_simps)
next
  case (Inr data)
  then show ?thesis by (simp add: resume_success finally_block_simps)
qed

lemma in_flight_state_eq:
  "in_flight_state = initial_state\<lparr>inFlightRef := True, loading := True, error := None\<rparr>"
  by (simp add: in_flight_state_def start_def currentPrompt_of_def title_of_def trim_def is_ws_def
      initial_state_def)

subsection \<open>The retry loop, one iteration at a time\<close>

lemma retry_loop_exhausted: "retry_loop net p maxRetries response = (Inr response, [])"
  by (subst retry_loop.simps) simp

lemma retry_loop_ok:
  "i < maxRetries \<Longrightarrow> net i = Resolves r \<Longrightarrow> ok r \<Longrightarrow>
   retry_loop net p i response = (Inr (Some r), [Fetch p])"
  by (subst retry_loop.simps) simp

lemma retry_loop_non_retryable:
  "i < maxRetries \<Longrightarrow> net i = Resolves r \<Longrightarrow> \<not> ok r \<Longrightarrow> status r \<noteq> 404 \<Longrightarrow> status r < 500 \<Longrightarrow>
   retry_loop net p i response = (Inr (Some r), [Fetch p])"
  by (subst retry_loop.simps) simp

lemma retry_loop_retryable:
  "i < maxRetries \<Longrightarrow> net i = Resolves r \<Longrightarrow> \<not> ok r \<Longrightarrow> status r = 404 \<or> 500 \<le> status r \<Longrightarrow>
   retry_loop net p i response =
     (fst (retry_loop net p (Suc i) (Some r)),
      Fetch p # Timeout (2 ^ i * 500) # snd (retry_loop net p (Suc i) (Some r)))"
  by (subst retry_loop.simps) (simp add: case_prod_beta)

lemma retry_loop_last_reject:
  "i = maxRetries - 1 \<Longrightarrow> net i = Rejects fetchErr \<Longrightarrow>
   retry_loop net p i response = (Inl fetchErr, [Fetch p])"
  by (subst retry_loop.simps) (simp add: maxRetries_def)

lemma retry_loop_reject_retry:
  "i < maxRetries - 1 \<Longrightarrow> net i = Rejects fetchErr \<Longrightarrow>
   retry_loop net p i response =
     (fst (retry_loop net p (Suc i) response),
      Fetch p # Timeout (2 ^ i * 500) # snd (retry_loop net p (Suc i) response))"
  by (subst retry_loop.simps) (simp add: case_prod_beta)

lemma retry_loop_keeps_response:
  "response \<noteq> None \<Longrightarrow> fst (retry_loop net p i response) \<noteq> Inr None"
proof (induction net p i response rule: retry_loop.induct)
  case (1 net p i response)
  show ?case
  proof (cases "i < maxRetries")
    case False
    with "1.prems" show ?thesis by (subst retry_loop.simps) simp
  next
    case lt: True
    show ?thesis
    proof (cases "net i")
      case (Rejects fetchErr)
      show ?thesis
      proof (cases "i = maxRetries - 1")
        case True
        with Rejects show ?thesis by (simp add: retry_loop_last_reject)
      next
        case False
        with lt have "i < maxRetries - 1" by simp
        with Rejects "1.IH"(1) [OF lt Rejects False "1.prems"] show ?thesis
          by (simp add: retry_loop_reject_retry)
      qed
    next
      case (Resolves r)
      show ?thesis
      proof (cases "ok r")
        case True
        with lt Resolves show ?thesis by (simp add: retry_loop_ok)
      next
        case nok: False
        show ?thesis
        proof (cases "status r = 404 \<or> 500 \<le> status r")
          case True
          with lt Resolves nok "1.IH"(2) [OF lt Resolves nok True] show ?thesis
            by (simp add: retry_loop_retryable)
        next
          case False
          with lt Resolves nok show ?thesis by (simp add: retry_loop_non_retryable)
        qed
      qed
    qed
  qed
qed

lemma retry_loop_response_set:
  "i < maxRetries \<Longrightarrow> fst (retry_loop net p i response) \<noteq> Inr None"
proof (induction net p i response rule: retry_loop.induct)
  case (1 net p i response)
  note lt = "1.prems"
  show ?case
  proof (cases "net i")
    case (Rejects fetchErr)
    show ?thesis
    proof (cases "i = maxRetries - 1")
      case True
      with Rejects show ?thesis by (simp add: retry_loop_last_reject)
    next
      case False
      with lt have lt': "i < maxRetries - 1" by simp
      then have "Suc i < maxRetries" by simp
      with Rejects lt' "1.IH"(1) [OF lt Rejects False] show ?thesis
        by (simp add: retry_loop_reject_retry)
    qed
  next
    case (Resolves r)
    show ?thesis
    proof (cases "ok r")
      case True
      with lt Resolves show ?thesis by (simp add: retry_loop_ok)
    next
      case nok: False
      show ?thesis
      proof (cases "status r = 404 \<or> 500 \<le> status r")
        case True
        have "fst (retry_loop net p (Suc i) (Some r)) \<noteq> Inr None"
          by (rule retry_loop_keeps_response) simp
        with lt Resolves nok True show ?thesis
          by (simp add: retry_loop_retryable)
      next
        case False
        with lt Resolves nok show ?thesis by (simp add: retry_loop_non_retryable)
      qed
    qed
  qed
qed

lemma retry_loop_first_fetch:
  "i < maxRetries \<Longrightarrow> \<exists>tr. snd (retry_loop net p i response) = Fetch p # tr"
  by (subst retry_loop.simps) (simp split: fetch_outcome.splits prod.splits)

subsection \<open>The request\<close>

lemma fetchSuggestion_trace:
  "snd (fetchSuggestion net p) = snd (retry_loop net p 0 None)"
  by (simp add: fetchSuggestion_def split: prod.splits sum.splits option.splits json_result.splits)

lemma fetchSuggestion_first_fetch: "\<exists>tr. snd (fetchSuggestion net p) = Fetch p # tr"
  unfolding fetchSuggestion_trace by (rule retry_loop_first_fetch) (simp add: maxRetries_def)

lemma fetchSuggestion_fetches: "fetches (snd (fetchSuggestion net p)) \<noteq> []"
  using fetchSuggestion_first_fetch [of net p] by auto

lemma fetchSuggestion_non_retryable:
  assumes "net 0 = Resolves r" and "\<not> ok r" and "status r \<noteq> 404" and "status r < 500"
  shows "fetchSuggestion net p = (Inl (Error (error_message (Some r))), [Fetch p])"
proof -
  have "retry_loop net p 0 None = (Inr (Some r), [Fetch p])"
    using assms by (intro retry_loop_non_retryable) (simp_all add: maxRetries_def)
  with assms(2) show ?thesis by (simp add: fetchSuggestion_def)
qed

lemma error_message_details:
  "json r = JsonValue (Some d) data \<Longrightarrow> d \<noteq> [] \<Longrightarrow> error_message (Some r) = d"
  by (simp add: error_message_def errData_details_def)

subsection \<open>Substrings\<close>

lemma startsWith_append: "startsWith (t @ ys) t"
  by (induction t) simp_all

lemma includes_str_prefix: "includes_str (t @ ys) t"
proof (cases "t @ ys")
  case Nil
  then show ?thesis by simp
next
  case (Cons c cs)
  have "startsWith (t @ ys) t" by (rule startsWith_append)
  with Cons show ?thesis by simp
qed

lemma includes_str_append_left: "includes_str ys t \<Longrightarrow> includes_str (xs @ ys) t"
  by (induction xs) simp_all

lemma includes_str_middle: "includes_str (xs @ t @ ys) t"
  by (rule includes_str_append_left) (rule includes_str_prefix)

subsection \<open>The three outcomes of a call that passes the checks\<close>

lemma catch_block_network:
  "network_failure (errorMsg err) \<Longrightarrow>
   catch_block err p s =
     (s\<lparr>result := keep_or_replace (result s) MOCK_FONT_SUGGESTION,
        error := Some mock_active_message, lastPromptRef := Some p\<rparr>,
      [ConsoleWarn ''Network Error detected. Falling back to mock response.'', Timeout 500])"
  by (simp add: catch_block_def)

lemma catch_block_other:
  "\<not> network_failure (errorMsg err) \<Longrightarrow>
   catch_block err p s =
     (s\<lparr>error := Some (''Server Error: '' @ errorMsg err @ ''.'')\<rparr>, [ConsoleError ''API Error:''])"
  by (simp add: catch_block_def)

lemma keep_or_replace_val: "map_option val (keep_or_replace prev new) = Some (val new)"
  by (cases prev) (simp_all add: keep_or_replace_def)

lemma keep_or_replace_same:
  "font_name (val old) = font_name (val new) \<Longrightarrow> reason (val old) = reason (val new) \<Longrightarrow>
   keep_or_replace (Some old) new = Some old"
  by (simp add: keep_or_replace_def)

lemma keep_or_replace_new:
  "prev = None \<or> font_name (val (the prev)) \<noteq> font_name (val new)
     \<or> reason (val (the prev)) \<noteq> reason (val new) \<Longrightarrow>
   keep_or_replace prev new = Some new"
  by (cases prev) (auto simp: keep_or_replace_def)

lemma handleSubmit_network_failure:
  assumes "passes_checks s ip"
    and "fst (fetchSuggestion net (currentPrompt_of s ip)) = Inl err"
    and "network_failure (errorMsg err)"
  shows "handleSubmit net e ip s =
     (s\<lparr>result := keep_or_replace (result s) MOCK_FONT_SUGGESTION, loading := False,
        error := Some mock_active_message, inFlightRef := False,
        lastPromptRef := Some (currentPrompt_of s ip)\<rparr>,
      form_events e @ snd (fetchSuggestion net (currentPrompt_of s ip)) @
      [ConsoleWarn ''Network Error detected. Falling back to mock response.'', Timeout 500])"
  using assms
  by (simp add: handleSubmit_passes resume_failure catch_block_network finally_block_def)

lemma handleSubmit_other_failure:
  assumes "passes_checks s ip"
    and "fst (fetchSuggestion net (currentPrompt_of s ip)) = Inl err"
    and "\<not> network_failure (errorMsg err)"
  shows "handleSubmit net e ip s =
     (s\<lparr>loading := False, error := Some (''Server Error: '' @ errorMsg err @ ''.''),
        inFlightRef := False\<rparr>,
      form_events e @ snd (fetchSuggestion net (currentPrompt_of s ip)) @
      [ConsoleError ''API Error:''])"
  using assms
  by (simp add: handleSubmit_passes resume_failure catch_block_other finally_block_def)

lemma handleSubmit_success:
  assumes "passes_checks s ip"
    and "fst (fetchSuggestion net (currentPrompt_of s ip)) = Inr data"
  shows "handleSubmit net e ip s =
     (s\<lparr>result := keep_or_replace (result s) (Obj (nextAddr s) data), loading := False,
        error := None, inFlightRef := False,
        lastPromptRef := Some (currentPrompt_of s ip), nextAddr := Suc (nextAddr s)\<rparr>,
      form_events e @ snd (fetchSuggestion net (currentPrompt_of s ip)))"
  using assms
  by (simp add: handleSubmit_passes resume_success finally_block_def)

lemma currentPrompt_of_cong:
  "prompt s' = prompt s \<Longrightarrow> currentPrompt_of s' ip = currentPrompt_of s ip"
  by (cases ip) (simp_all add: currentPrompt_of_def title_of_def)

subsection \<open>The remembered title is never empty\<close>

lemma dedup_ok_initial: "dedup_ok initial_state"
  by (simp add: dedup_ok_def initial_state_def)

lemma dedup_ok_handleSubmit:
  assumes "dedup_ok s"
  shows "dedup_ok (fst (handleSubmit net e ip s))"
proof (cases "passes_checks s ip")
  case True
  then have ne: "currentPrompt_of s ip \<noteq> []" by (simp add: passes_checks_def)
  show ?thesis
  proof (cases "fst (fetchSuggestion net (currentPrompt_of s ip))")
    case (Inr data)
    with True ne show ?thesis by (simp add: handleSubmit_success dedup_ok_def)
  next
    case (Inl err)
    show ?thesis
    proof (cases "network_failure (errorMsg err)")
      case nf: True
      with True Inl ne show ?thesis by (simp add: handleSubmit_network_failure dedup_ok_def)
    next
      case False
      with True Inl assms show ?thesis by (simp add: handleSubmit_other_failure dedup_ok_def)
    qed
  qed
next
  case False
  show ?thesis
  proof (cases "currentPrompt_of s ip = []")
    case True
    with assms show ?thesis by (simp add: handleSubmit_stopped start_empty dedup_ok_def)
  next
    case ne: False
    show ?thesis
    proof (cases "inFlightRef s")
      case True
      with ne assms show ?thesis by (simp add: handleSubmit_stopped start_in_flight)
    next
      case nf: False
      with False ne have "lastPromptRef s = Some (currentPrompt_of s ip)"
        by (simp add: passes_checks_def)
      with ne assms show ?thesis by (simp add: handleSubmit_stopped start_deduped)
    qed
  qed
qed

subsection \<open>The advisory message\<close>

lemma mock_message_names_endpoint: "includes_str mock_active_message API_URL"
  unfolding mock_active_message_def by (rule includes_str_middle)

lemma mock_message_names_font:
  "includes_str mock_active_message (font_name (val MOCK_FONT_SUGGESTION))"
proof -
  have eq: "mock_active_message =
      (''[MOCK ACTIVE] API server not found at '' @ API_URL @ ''. Displaying mock font: '') @
      font_name (val MOCK_FONT_SUGGESTION) @ ''.''"
    unfolding mock_active_message_def by (simp only: append_assoc)
  show ?thesis unfolding eq by (rule includes_str_middle)
qed

subsection \<open>The scenarios, evaluated\<close>

lemma passes_initial: "passes_checks initial_state (Some ''Retro Arcade'')"
  by (simp add: passes_checks_def currentPrompt_of_def title_of_def trim_def is_ws_def
      initial_state_def)

lemma currentPrompt_initial:
  "currentPrompt_of initial_state (Some ''Retro Arcade'') = ''Retro Arcade''"
  by (simp add: currentPrompt_of_def title_of_def trim_def is_ws_def)

lemma offline_request:
  "fetchSuggestion offline p =
     (Inl (Error ''Failed to fetch''),
      [Fetch p, Timeout 500, Fetch p, Timeout 1000, Fetch p])"
  by (simp add: fetchSuggestion_def retry_loop.simps maxRetries_def offline_def)

lemma unavailable_loop:
  "retry_loop always_unavailable p 0 None =
     (Inr (Some service_unavailable),
      [Fetch p, Timeout 500, Fetch p, Timeout 1000, Fetch p, Timeout 2000])"
  by (simp add: retry_loop.simps maxRetries_def always_unavailable_def service_unavailable_def
      ok_def)

lemma unavailable_request:
  "fetchSuggestion always_unavailable p =
     (Inl (Error ''HTTP error! status: 503''),
      [Fetch p, Timeout 500, Fetch p, Timeout 1000, Fetch p, Timeout 2000])"
  by (simp add: fetchSuggestion_def unavailable_loop)
     (simp add: service_unavailable_def ok_def error_message_def errData_details_def
      http_error_def string_of_nat.simps digit_def)

lemma recovering_request:
  "fetchSuggestion recovering p =
     (Inr \<lparr>font_name = ''Lobster'', reason = ''Playful and bold.''\<rparr>,
      [Fetch p, Timeout 500, Fetch p, Timeout 1000, Fetch p])"
  by (simp add: fetchSuggestion_def retry_loop.simps maxRetries_def recovering_def
      service_unavailable_def suggestion_response_def ok_def)

lemma suggesting_request:
  "fetchSuggestion always_suggesting p =
     (Inr \<lparr>font_name = ''Lobster'', reason = ''Playful and bold.''\<rparr>, [Fetch p])"
  by (simp add: fetchSuggestion_def retry_loop.simps maxRetries_def always_suggesting_def
      suggestion_response_def ok_def)

lemma refusing_request:
  "fetchSuggestion refusing p = (Inl (Error ''Title too long''), [Fetch p])"
  by (simp add: fetchSuggestion_def retry_loop.simps maxRetries_def refusing_def
      bad_request_def error_body_def ok_def error_message_def errData_details_def)

lemma refusing_fetch_request:
  "fetchSuggestion refusing_fetch p = (Inl (Error ''Failed to fetch the model list''), [Fetch p])"
  by (simp add: fetchSuggestion_def retry_loop.simps maxRetries_def refusing_fetch_def
      bad_request_fetch_def error_body_def ok_def error_message_def errData_details_def)

lemma upstream_down_request:
  "fetchSuggestion upstream_down p =
     (Inl (Error ''NetworkError when attempting to fetch resource.''),
      [Fetch p, Timeout 500, Fetch p, Timeout 1000, Fetch p, Timeout 2000])"
  by (simp add: fetchSuggestion_def retry_loop.simps maxRetries_def upstream_down_def
      upstream_error_def error_body_def ok_def error_message_def errData_details_def)

lemma restyling_request:
  "fetchSuggestion always_restyling p =
     (Inr \<lparr>font_name = ''Orbitron'', reason = ''Geometric and futuristic.''\<rparr>, [Fetch p])"
  by (simp add: fetchSuggestion_def retry_loop.simps maxRetries_def always_restyling_def
      restyled_response_def ok_def)

lemma offline_run:
  "handleSubmit offline False (Some ''Retro Arcade'') initial_state =
     (fallback_state,
      [Fetch ''Retro Arcade'', Timeout 500, Fetch ''Retro Arcade'', Timeout 1000,
       Fetch ''Retro Arcade'',
       ConsoleWarn ''Network Error detected. Falling back to mock response.'', Timeout 500])"
  using handleSubmit_network_failure [OF passes_initial, of offline "Error ''Failed to fetch''" False,
      unfolded currentPrompt_initial offline_request]
  by (simp add: errorMsg_def network_failure_def fallback_state_def initial_state_def
      keep_or_replace_def form_events_def)

lemma recovering_run:
  "handleSubmit recovering False (Some ''Retro Arcade'') initial_state =
     (suggested_state,
      [Fetch ''Retro Arcade'', Timeout 500, Fetch ''Retro Arcade'', Timeout 1000,
       Fetch ''Retro Arcade''])"
  using handleSubmit_success [OF passes_initial, of recovering _ False,
      unfolded currentPrompt_initial recovering_request]
  by (simp add: suggested_state_def initial_state_def keep_or_replace_def form_events_def)

lemma unavailable_run:
  "handleSubmit always_unavailable False (Some ''Retro Arcade'') initial_state =
     (initial_state\<lparr>error := Some ''Server Error: HTTP error! status: 503.''\<rparr>,
      [Fetch ''Retro Arcade'', Timeout 500, Fetch ''Retro Arcade'', Timeout 1000,
       Fetch ''Retro Arcade'', Timeout 2000, ConsoleError ''API Error:''])"
  using handleSubmit_other_failure [OF passes_initial, of always_unavailable
      "Error ''HTTP error! status: 503''" False,
      unfolded currentPrompt_initial unavailable_request]
  by (simp add: errorMsg_def network_failure_def initial_state_def form_events_def)

lemma refusing_run:
  "handleSubmit refusing False (Some ''Retro Arcade'') initial_state =
     (initial_state\<lparr>error := Some ''Server Error: Title too long.''\<rparr>,
      [Fetch ''Retro Arcade'', ConsoleError ''API Error:''])"
  using handleSubmit_other_failure [OF passes_initial, of refusing
      "Error ''Title too long''" False,
      unfolded currentPrompt_initial refusing_request]
  by (simp add: errorMsg_def network_failure_def initial_state_def form_events_def)

lemma refusing_fetch_run:
  "handleSubmit refusing_fetch False (Some ''Retro Arcade'') initial_state =
     (fallback_state,
      [Fetch ''Retro Arcade'',
       ConsoleWarn ''Network Error detected. Falling back to mock response.'', Timeout 500])"
  using handleSubmit_network_failure [OF passes_initial, of refusing_fetch
      "Error ''Failed to fetch the model list''" False,
      unfolded currentPrompt_initial refusing_fetch_request]
  by (simp add: errorMsg_def network_failure_def fallback_state_def initial_state_def
      keep_or_replace_def form_events_def)

lemma upstream_down_run:
  "handleSubmit upstream_down False (Some ''Retro Arcade'') initial_state =
     (fallback_state,
      [Fetch ''Retro Arcade'', Timeout 500, Fetch ''Retro Arcade'', Timeout 1000,
       Fetch ''Retro Arcade'', Timeout 2000,
       ConsoleWarn ''Network Error detected. Falling back to mock response.'', Timeout 500])"
  using handleSubmit_network_failure [OF passes_initial, of upstream_down
      "Error ''NetworkError when attempting to fetch resource.''" False,
      unfolded currentPrompt_initial upstream_down_request]
  by (simp add: errorMsg_def network_failure_def fallback_state_def initial_state_def
      keep_or_replace_def form_events_def)

lemma mock_message_text:
  "mock_active_message =
     ''[MOCK ACTIVE] API server not found at http://localhost:3000/api/suggest-font. Displaying mock font: Press Start 2P.''"
  by (simp add: mock_active_message_def API_URL_def MOCK_FONT_SUGGESTION_def)

subsection \<open>Invariants of the two halves of a call\<close>

lemma start_title_nonempty: "start s ip = (s', Some p) \<Longrightarrow> p \<noteq> []"
  by (auto simp: start_def Let_def split: if_splits)

lemma dedup_ok_start: "dedup_ok s \<Longrightarrow> dedup_ok (fst (start s ip))"
  by (simp add: start_def Let_def dedup_ok_def)

lemma dedup_ok_resume:
  assumes "dedup_ok s" and "p \<noteq> []"
  shows "dedup_ok (fst (resume net p s))"
proof (cases "fst (fetchSuggestion net p)")
  case (Inr data)
  with assms(2) show ?thesis
    by (simp add: resume_success finally_block_def dedup_ok_def)
next
  case (Inl err)
  with assms show ?thesis
    by (simp add: resume_failure catch_block_def finally_block_def dedup_ok_def)
qed

lemma heap_ok_initial: "heap_ok initial_state"
  by (simp add: heap_ok_def initial_state_def)

lemma heap_ok_keep:
  assumes "heap_ok s"
  shows "\<forall>obj\<in>set_option (keep_or_replace (result s) (Obj (nextAddr s) data)).
           addr obj < Suc (nextAddr s)"
  using assms by (cases "result s") (auto simp: heap_ok_def keep_or_replace_def)

lemma heap_ok_mock:
  assumes "heap_ok s"
  shows "\<forall>obj\<in>set_option (keep_or_replace (result s) MOCK_FONT_SUGGESTION).
           addr obj < nextAddr s"
  using assms
  by (cases "result s") (auto simp: heap_ok_def keep_or_replace_def MOCK_FONT_SUGGESTION_def)

lemma heap_ok_resume:
  assumes "heap_ok s"
  shows "heap_ok (fst (resume net p s))"
proof (cases "fst (fetchSuggestion net p)")
  case (Inr data)
  with assms heap_ok_keep [OF assms, of data] show ?thesis
    by (simp add: resume_success finally_block_def heap_ok_def)
next
  case (Inl err)
  with assms heap_ok_mock [OF assms] show ?thesis
    by (simp add: resume_failure catch_block_def finally_block_def heap_ok_def)
qed

lemma heap_ok_start: "heap_ok s \<Longrightarrow> heap_ok (fst (start s ip))"
  by (simp add: start_def Let_def heap_ok_def)

lemma heap_ok_handleSubmit:
  assumes "heap_ok s"
  shows "heap_ok (fst (handleSubmit net e ip s))"
proof (cases "start s ip")
  case (Pair s1 go)
  with heap_ok_start [OF assms, of ip] have ok1: "heap_ok s1" by simp
  show ?thesis
  proof (cases go)
    case None
    with Pair ok1 show ?thesis by (simp add: handleSubmit_def)
  next
    case (Some p)
    with Pair heap_ok_resume [OF ok1, of net p] show ?thesis
      by (cases "resume net p s1") (simp add: handleSubmit_def)
  qed
qed

text \<open>A replaced \<open>result\<close> is an object that did not exist before the call.\<close>

lemma new_object_is_fresh:
  assumes "heap_ok s" and "result s = Some old"
  shows "Obj (nextAddr s) data \<noteq> old"
  using assms by (auto simp: heap_ok_def)

subsection \<open>Status codes as text\<close>

lemma digit_is_decimal: "digit d \<in> set ''0123456789''"
proof -
  have "d mod 10 < length ''0123456789''" by simp
  then have "''0123456789'' ! (d mod 10) \<in> set ''0123456789''" by (rule nth_mem)
  then show ?thesis by (simp only: digit_def)
qed

lemma string_of_nat_last: "last (string_of_nat n) = digit n"
  by (subst string_of_nat.simps) simp

lemma string_of_nat_not_text: "string_of_nat n \<noteq> ''Network Error''"
proof
  assume "string_of_nat n = ''Network Error''"
  then have "last (string_of_nat n) = last ''Network Error''" by (rule arg_cong)
  then have "digit n = CHR ''r''" by (simp add: string_of_nat_last)
  with digit_is_decimal [of n] show False by simp
qed

lemma http_error_status: "http_error (Some r) \<noteq> http_error None"
  by (simp add: http_error_def string_of_nat_not_text)

section \<open>The claims\<close>

text \<open>
  C1. When a call passes the checks and its request fails with an error whose message
  contains \<open>Failed to fetch\<close> or \<open>NetworkError\<close>, the call waits 500 ms after the request,
  the displayed suggestion then has the fields of the fallback (font \<open>Press Start 2P\<close>),
  \<open>error\<close> holds the advisory message, which names the endpoint and the mock font, the
  trimmed title is remembered, and a further call with that title changes nothing and
  issues no network call.
\<close>

theorem C1_network_failure_fallback:
  assumes "passes_checks s initialPrompt"
    and "fst (fetchSuggestion net (currentPrompt_of s initialPrompt)) = Inl err"
    and "network_failure (errorMsg err)"
    and "handleSubmit net e initialPrompt s = (s', tr)"
  shows "map_option val (result s') = Some (val MOCK_FONT_SUGGESTION)
       \<and> font_name (val MOCK_FONT_SUGGESTION) = ''Press Start 2P''
       \<and> error s' = Some mock_active_message
       \<and> includes_str mock_active_message API_URL
       \<and> includes_str mock_active_message (font_name (val MOCK_FONT_SUGGESTION))
       \<and> lastPromptRef s' = Some (currentPrompt_of s initialPrompt)
       \<and> tr = form_events e @ snd (fetchSuggestion net (currentPrompt_of s initialPrompt)) @
              [ConsoleWarn ''Network Error detected. Falling back to mock response.'', Timeout 500]
       \<and> (\<forall>net' e' ip'. currentPrompt_of s' ip' = currentPrompt_of s initialPrompt \<longrightarrow>
              handleSubmit net' e' ip' s' = (s', form_events e')
              \<and> fetches (snd (handleSubmit net' e' ip' s')) = [])"
proof -
  let ?p = "currentPrompt_of s initialPrompt"
  have run: "handleSubmit net e initialPrompt s =
     (s\<lparr>result := keep_or_replace (result s) MOCK_FONT_SUGGESTION, loading := False,
        error := Some mock_active_message, inFlightRef := False, lastPromptRef := Some ?p\<rparr>,
      form_events e @ snd (fetchSuggestion net ?p) @
      [ConsoleWarn ''Network Error detected. Falling back to mock response.'', Timeout 500])"
    using assms(1-3) by (rule handleSubmit_network_failure)
  with assms(4) have s': "s' = s\<lparr>result := keep_or_replace (result s) MOCK_FONT_SUGGESTION,
        loading := False, error := Some mock_active_message, inFlightRef := False,
        lastPromptRef := Some ?p\<rparr>"
    and tr: "tr = form_events e @ snd (fetchSuggestion net ?p) @
      [ConsoleWarn ''Network Error detected. Falling back to mock response.'', Timeout 500]"
    by simp_all
  have res: "map_option val (result s') = Some (val MOCK_FONT_SUGGESTION)"
    by (simp add: s' keep_or_replace_val)
  have font: "font_name (val MOCK_FONT_SUGGESTION) = ''Press Start 2P''"
    by (simp add: MOCK_FONT_SUGGESTION_def)
  have err: "error s' = Some mock_active_message" by (simp add: s')
  have last: "lastPromptRef s' = Some ?p" by (simp add: s')
  have ne: "?p \<noteq> []"
    using assms(1) by (simp add: passes_checks_def)
  have again: "handleSubmit net' e' ip' s' = (s', form_events e')
      \<and> fetches (snd (handleSubmit net' e' ip' s')) = []"
    if "currentPrompt_of s' ip' = ?p" for net' e' ip'
  proof -
    from that ne have "currentPrompt_of s' ip' \<noteq> []" by simp
    moreover from that last have "lastPromptRef s' = Some (currentPrompt_of s' ip')" by simp
    ultimately show ?thesis by (rule handleSubmit_same_title)
  qed
  from res font err last tr again mock_message_names_endpoint mock_message_names_font
  show ?thesis by blast
qed

theorem C1_network_failure_fallback_witness:
  "passes_checks initial_state (Some ''Retro Arcade'')
   \<and> fst (fetchSuggestion offline (currentPrompt_of initial_state (Some ''Retro Arcade''))) =
       Inl (Error ''Failed to fetch'')
   \<and> network_failure (errorMsg (Error ''Failed to fetch''))
   \<and> handleSubmit offline False (Some ''Retro Arcade'') initial_state =
       (fallback_state,
        [Fetch ''Retro Arcade'', Timeout 500, Fetch ''Retro Arcade'', Timeout 1000,
         Fetch ''Retro Arcade'',
         ConsoleWarn ''Network Error detected. Falling back to mock response.'', Timeout 500])
   \<and> map_option val (result fallback_state) = Some (val MOCK_FONT_SUGGESTION)
   \<and> error fallback_state = Some mock_active_message
   \<and> lastPromptRef fallback_state = Some ''Retro Arcade''
   \<and> handleSubmit always_suggesting True (Some '' Retro Arcade '') fallback_state =
       (fallback_state, [PreventDefault])"
proof -
  have h2: "fst (fetchSuggestion offline (currentPrompt_of initial_state (Some ''Retro Arcade''))) =
       Inl (Error ''Failed to fetch'')"
    by (simp add: offline_request)
  have h3: "network_failure (errorMsg (Error ''Failed to fetch''))"
    by (simp add: errorMsg_def network_failure_def)
  have same: "currentPrompt_of fallback_state (Some '' Retro Arcade '') =
      currentPrompt_of initial_state (Some ''Retro Arcade'')"
    by (simp add: currentPrompt_of_def title_of_def trim_def is_ws_def)
  show ?thesis
    using passes_initial h2 h3 offline_run same
      C1_network_failure_fallback [OF passes_initial h2 h3 offline_run]
    by (simp add: currentPrompt_initial form_events_def)
qed

text \<open>
  C2. For every title that is empty or consists of white space only, \<open>handleSubmit\<close>
  issues no network call, sets \<open>error\<close> to the validation message and stops: nothing else
  of the state changes, whatever the guards hold.
\<close>

theorem C2_empty_title:
  assumes "list_all is_ws (title_of s initialPrompt)"
  shows "handleSubmit net e initialPrompt s =
           (s\<lparr>error := Some ''Please enter a title to analyze.''\<rparr>, form_events e)
         \<and> fetches (snd (handleSubmit net e initialPrompt s)) = []"
proof -
  from assms have "currentPrompt_of s initialPrompt = []"
    by (simp add: currentPrompt_of_def trim_Nil_iff list_all_iff)
  then have "handleSubmit net e initialPrompt s =
      (s\<lparr>error := Some ''Please enter a title to analyze.''\<rparr>, form_events e)"
    by (simp add: handleSubmit_stopped start_empty)
  then show ?thesis by (simp add: fetches_form_events)
qed

theorem C2_empty_title_witness:
  "list_all is_ws (title_of initial_state (Some ''   ''))
   \<and> handleSubmit offline True (Some ''   '') initial_state =
       (initial_state\<lparr>error := Some ''Please enter a title to analyze.''\<rparr>, [PreventDefault])
   \<and> fetches (snd (handleSubmit offline True (Some ''   '') initial_state)) = []"
proof -
  have h: "list_all is_ws (title_of initial_state (Some ''   ''))"
    by (simp add: title_of_def is_ws_def)
  show ?thesis
    using h C2_empty_title [OF h, of offline True]
    by (simp add: form_events_def)
qed

text \<open>
  C3, as the claim states it: a call made while \<open>inFlightRef\<close> is set changes no state
  field, whatever its title. It fails for a title of white space: the validation of
  line 56 runs before the guard of line 62 and sets \<open>error\<close>.
\<close>

theorem C3_counterexample:
  "inFlightRef in_flight_state
   \<and> error in_flight_state = None
   \<and> error (fst (handleSubmit offline False (Some ''  '') in_flight_state)) =
       Some ''Please enter a title to analyze.''"
  by (simp add: in_flight_state_eq initial_state_def handleSubmit_def start_def
      currentPrompt_of_def title_of_def trim_def is_ws_def)

text \<open>
  C3, amended: a call made while \<open>inFlightRef\<close> is set, with a title that is not empty
  after trimming, changes nothing of the state and issues no network call.
\<close>

theorem C3_in_flight_nonempty_title:
  assumes "inFlightRef s" and "currentPrompt_of s initialPrompt \<noteq> []"
  shows "handleSubmit net e initialPrompt s = (s, form_events e)
         \<and> fetches (snd (handleSubmit net e initialPrompt s)) = []"
  using assms by (simp add: handleSubmit_stopped start_in_flight fetches_form_events)

theorem C3_in_flight_nonempty_title_witness:
  "inFlightRef in_flight_state
   \<and> currentPrompt_of in_flight_state (Some ''Retro Arcade'') \<noteq> []
   \<and> handleSubmit offline True (Some ''Retro Arcade'') in_flight_state =
       (in_flight_state, [PreventDefault])
   \<and> fetches (snd (handleSubmit offline True (Some ''Retro Arcade'') in_flight_state)) = []"
proof -
  have h1: "inFlightRef in_flight_state"
    by (simp add: in_flight_state_eq)
  have h2: "currentPrompt_of in_flight_state (Some ''Retro Arcade'') \<noteq> []"
    by (simp add: currentPrompt_of_def title_of_def trim_def is_ws_def)
  show ?thesis
    using h1 h2 C3_in_flight_nonempty_title [OF h1 h2, of offline True]
    by (simp add: form_events_def)
qed

text \<open>
  C4. When the trimmed title is the one held in \<open>lastPromptRef\<close>, the title of the last
  request that ended with a result (from the server or the fallback), \<open>handleSubmit\<close>
  issues no network call and leaves the whole state as it is. (\<open>dedup_ok\<close> holds in
  every state the component reaches, see \<open>dedup_ok_initial\<close> and
  \<open>dedup_ok_handleSubmit\<close>.)
\<close>

theorem C4_same_title:
  assumes "dedup_ok s" and "lastPromptRef s = Some (currentPrompt_of s initialPrompt)"
  shows "handleSubmit net e initialPrompt s = (s, form_events e)
         \<and> fetches (snd (handleSubmit net e initialPrompt s)) = []"
proof -
  from assms have "currentPrompt_of s initialPrompt \<noteq> []"
    by (auto simp: dedup_ok_def)
  then show ?thesis using assms(2) by (rule handleSubmit_same_title)
qed

theorem C4_same_title_witness:
  "dedup_ok (initial_state\<lparr>lastPromptRef := Some ''Retro Arcade''\<rparr>)
   \<and> lastPromptRef (initial_state\<lparr>lastPromptRef := Some ''Retro Arcade''\<rparr>) =
       Some (currentPrompt_of (initial_state\<lparr>lastPromptRef := Some ''Retro Arcade''\<rparr>)
              (Some '' Retro Arcade ''))
   \<and> handleSubmit offline False (Some '' Retro Arcade '')
         (initial_state\<lparr>lastPromptRef := Some ''Retro Arcade''\<rparr>) =
       (initial_state\<lparr>lastPromptRef := Some ''Retro Arcade''\<rparr>, [])"
proof -
  have h1: "dedup_ok (initial_state\<lparr>lastPromptRef := Some ''Retro Arcade''\<rparr>)"
    by (simp add: dedup_ok_def)
  have h2: "lastPromptRef (initial_state\<lparr>lastPromptRef := Some ''Retro Arcade''\<rparr>) =
       Some (currentPrompt_of (initial_state\<lparr>lastPromptRef := Some ''Retro Arcade''\<rparr>)
              (Some '' Retro Arcade ''))"
    by (simp add: currentPrompt_of_def title_of_def trim_def is_ws_def)
  show ?thesis
    using h1 h2 C4_same_title [OF h1 h2, of offline False]
    by (simp add: form_events_def)
qed

text \<open>
  C5, at three answers of 503: the loop makes three attempts and waits after each of
  them, 2000 ms after the third and last one, before the error is raised. The claim has
  no wait after the last allowed attempt.
\<close>

theorem C5_wait_after_last_attempt:
  "retry_loop always_unavailable ''Retro Arcade'' 0 None =
     (Inr (Some service_unavailable),
      [Fetch ''Retro Arcade'', Timeout 500, Fetch ''Retro Arcade'', Timeout 1000,
       Fetch ''Retro Arcade'', Timeout 2000])
   \<and> delays (snd (handleSubmit always_unavailable False (Some ''Retro Arcade'') initial_state)) =
       [500, 1000, 2000]
   \<and> error (fst (handleSubmit always_unavailable False (Some ''Retro Arcade'') initial_state)) =
       Some ''Server Error: HTTP error! status: 503.''"
  by (simp add: unavailable_loop unavailable_run)

text \<open>
  C6, as the claim states it: after a 400 the error message reflects the \<open>details\<close> of
  the body. It fails when the details contain \<open>Failed to fetch\<close>: line 119 takes the
  thrown error for a network failure, and the message is the advisory one.
\<close>

theorem C6_counterexample:
  "refusing_fetch 0 = Resolves bad_request_fetch
   \<and> status bad_request_fetch = 400
   \<and> json bad_request_fetch = error_body ''Failed to fetch the model list''
   \<and> error (fst (handleSubmit refusing_fetch False (Some ''Retro Arcade'') initial_state)) =
       Some mock_active_message
   \<and> \<not> includes_str mock_active_message ''Failed to fetch the model list''"
  by (simp add: refusing_fetch_run fallback_state_def)
     (simp add: refusing_fetch_def bad_request_fetch_def mock_message_text)

text \<open>
  C6, amended: when the first attempt returns a status that is not a success, not 404
  and below 500, the request is that one attempt, with no wait; and when the body has
  \<open>details\<close> that contain neither \<open>Failed to fetch\<close> nor \<open>NetworkError\<close>, the error message
  contains them, and is \<open>Server Error: <details>.\<close> when they are not empty.
\<close>

theorem C6_non_retryable_status:
  assumes "passes_checks s initialPrompt"
    and "net 0 = Resolves r" and "\<not> ok r" and "status r \<noteq> 404" and "status r < 500"
    and "handleSubmit net e initialPrompt s = (s', tr)"
  shows "snd (fetchSuggestion net (currentPrompt_of s initialPrompt)) =
           [Fetch (currentPrompt_of s initialPrompt)]
       \<and> fetches tr = [currentPrompt_of s initialPrompt]
       \<and> (\<forall>d data. json r = JsonValue (Some d) data \<and> \<not> network_failure d \<longrightarrow>
             (\<exists>m. error s' = Some m \<and> includes_str m d)
             \<and> (d \<noteq> [] \<longrightarrow> error s' = Some (''Server Error: '' @ d @ ''.'')))"
proof -
  let ?p = "currentPrompt_of s initialPrompt"
  let ?err = "Error (error_message (Some r))"
  have req: "fetchSuggestion net ?p = (Inl ?err, [Fetch ?p])"
    using assms(2-5) by (rule fetchSuggestion_non_retryable)
  then have failed: "fst (fetchSuggestion net ?p) = Inl ?err" by simp
  have one: "snd (fetchSuggestion net ?p) = [Fetch ?p]" using req by simp
  have both: "(\<exists>m. error s' = Some m) \<and> fetches tr = [?p]"
  proof (cases "network_failure (errorMsg ?err)")
    case True
    from handleSubmit_network_failure [OF assms(1) failed True, of e] assms(6)
    show ?thesis
      by (auto simp: one fetches_append fetches_form_events)
  next
    case False
    from handleSubmit_other_failure [OF assms(1) failed False, of e] assms(6)
    show ?thesis
      by (auto simp: one fetches_append fetches_form_events)
  qed
  then have some: "\<exists>m. error s' = Some m" and calls: "fetches tr = [?p]"
    by simp_all
  have details: "(\<exists>m. error s' = Some m \<and> includes_str m d)
      \<and> (d \<noteq> [] \<longrightarrow> error s' = Some (''Server Error: '' @ d @ ''.''))"
    if body: "json r = JsonValue (Some d) data" and plain: "\<not> network_failure d" for d data
  proof (cases "d = []")
    case True
    have "includes_str m []" for m by (cases m) simp_all
    with some True show ?thesis by auto
  next
    case False
    with body have msg: "errorMsg ?err = d"
      by (simp add: errorMsg_def error_message_details)
    with plain have "\<not> network_failure (errorMsg ?err)" by simp
    from handleSubmit_other_failure [OF assms(1) failed this, of e] assms(6) msg
    have "error s' = Some (''Server Error: '' @ d @ ''.'')" by auto
    moreover have "includes_str (''Server Error: '' @ d @ ''.'') d"
      by (rule includes_str_middle)
    ultimately show ?thesis by blast
  qed
  from one calls details show ?thesis by blast
qed

theorem C6_non_retryable_status_witness:
  "passes_checks initial_state (Some ''Retro Arcade'')
   \<and> refusing 0 = Resolves bad_request \<and> \<not> ok bad_request
   \<and> status bad_request \<noteq> 404 \<and> status bad_request < 500
   \<and> json bad_request = JsonValue (Some ''Title too long'') \<lparr>font_name = [], reason = []\<rparr>
   \<and> \<not> network_failure ''Title too long''
   \<and> handleSubmit refusing False (Some ''Retro Arcade'') initial_state =
       (initial_state\<lparr>error := Some ''Server Error: Title too long.''\<rparr>,
        [Fetch ''Retro Arcade'', ConsoleError ''API Error:''])
   \<and> fetches [Fetch ''Retro Arcade'', ConsoleError ''API Error:''] = [''Retro Arcade'']
   \<and> includes_str ''Server Error: Title too long.'' ''Title too long''"
proof -
  have h2: "refusing 0 = Resolves bad_request" by (simp add: refusing_def)
  have h3: "\<not> ok bad_request" by (simp add: ok_def bad_request_def)
  have h4: "status bad_request \<noteq> 404" by (simp add: bad_request_def)
  have h5: "status bad_request < 500" by (simp add: bad_request_def)
  have body: "json bad_request = JsonValue (Some ''Title too long'') \<lparr>font_name = [], reason = []\<rparr>"
    by (simp add: bad_request_def error_body_def)
  have plain: "\<not> network_failure ''Title too long''" by (simp add: network_failure_def)
  show ?thesis
    using passes_initial h2 h3 h4 h5 body plain refusing_run
      C6_non_retryable_status [OF passes_initial h2 h3 h4 h5 refusing_run]
    by (simp add: currentPrompt_initial)
qed

text \<open>
  C7, as the claim states it: a failure that is an HTTP error response leaves \<open>result\<close>
  and the remembered title as they were. It fails for a 500 whose \<open>details\<close> contain
  \<open>NetworkError\<close>: the fallback is displayed and the title is remembered.
\<close>

theorem C7_counterexample:
  "upstream_down 0 = Resolves upstream_error
   \<and> upstream_down 1 = Resolves upstream_error
   \<and> upstream_down 2 = Resolves upstream_error
   \<and> status upstream_error = 500
   \<and> result initial_state = None
   \<and> lastPromptRef initial_state = None
   \<and> result (fst (handleSubmit upstream_down False (Some ''Retro Arcade'') initial_state)) =
       Some MOCK_FONT_SUGGESTION
   \<and> lastPromptRef (fst (handleSubmit upstream_down False (Some ''Retro Arcade'') initial_state)) =
       Some ''Retro Arcade''"
  by (simp add: upstream_down_run fallback_state_def)
     (simp add: upstream_down_def upstream_error_def initial_state_def)

text \<open>
  C7, amended: when a call passes the checks and its request fails with an error whose
  message contains neither \<open>Failed to fetch\<close> nor \<open>NetworkError\<close>, \<open>error\<close> becomes
  \<open>Server Error: <message>.\<close>, \<open>result\<close> and the remembered title stay as they were, no
  wait is added to those of the request, and the same title passes the checks again.
\<close>

theorem C7_other_failure:
  assumes "passes_checks s initialPrompt"
    and "fst (fetchSuggestion net (currentPrompt_of s initialPrompt)) = Inl err"
    and "\<not> network_failure (errorMsg err)"
    and "handleSubmit net e initialPrompt s = (s', tr)"
  shows "error s' = Some (''Server Error: '' @ errorMsg err @ ''.'')
       \<and> result s' = result s
       \<and> lastPromptRef s' = lastPromptRef s
       \<and> delays tr = delays (snd (fetchSuggestion net (currentPrompt_of s initialPrompt)))
       \<and> passes_checks s' initialPrompt"
proof -
  let ?p = "currentPrompt_of s initialPrompt"
  from handleSubmit_other_failure [OF assms(1-3), of e] assms(4)
  have s': "s' = s\<lparr>loading := False, error := Some (''Server Error: '' @ errorMsg err @ ''.''),
        inFlightRef := False\<rparr>"
    and tr: "tr = form_events e @ snd (fetchSuggestion net ?p) @ [ConsoleError ''API Error:'']"
    by simp_all
  have "prompt s' = prompt s" by (simp add: s')
  then have "currentPrompt_of s' initialPrompt = ?p" by (rule currentPrompt_of_cong)
  with assms(1) have again: "passes_checks s' initialPrompt"
    by (simp add: passes_checks_def s')
  have "delays tr = delays (snd (fetchSuggestion net ?p))"
    by (simp add: tr delays_append form_events_def)
  with again show ?thesis by (simp add: s')
qed

theorem C7_other_failure_witness:
  "passes_checks initial_state (Some ''Retro Arcade'')
   \<and> fst (fetchSuggestion always_unavailable (currentPrompt_of initial_state (Some ''Retro Arcade''))) =
       Inl (Error ''HTTP error! status: 503'')
   \<and> \<not> network_failure (errorMsg (Error ''HTTP error! status: 503''))
   \<and> handleSubmit always_unavailable False (Some ''Retro Arcade'') initial_state =
       (initial_state\<lparr>error := Some ''Server Error: HTTP error! status: 503.''\<rparr>,
        [Fetch ''Retro Arcade'', Timeout 500, Fetch ''Retro Arcade'', Timeout 1000,
         Fetch ''Retro Arcade'', Timeout 2000, ConsoleError ''API Error:''])
   \<and> passes_checks (initial_state\<lparr>error := Some ''Server Error: HTTP error! status: 503.''\<rparr>)
       (Some ''Retro Arcade'')"
proof -
  have h2: "fst (fetchSuggestion always_unavailable
        (currentPrompt_of initial_state (Some ''Retro Arcade''))) =
       Inl (Error ''HTTP error! status: 503'')"
    by (simp add: unavailable_request)
  have h3: "\<not> network_failure (errorMsg (Error ''HTTP error! status: 503''))"
    by (simp add: errorMsg_def network_failure_def)
  show ?thesis
    using passes_initial h2 h3 unavailable_run
      C7_other_failure [OF passes_initial h2 h3 unavailable_run]
    by simp
qed

text \<open>
  C8. After a successful response, \<open>result\<close> stays the object it was when that object's
  \<open>font_name\<close> and \<open>reason\<close> equal those of the response, and becomes the new object
  otherwise (when nothing was displayed, or when a field differs); either way the
  displayed fields are those of the response. So when the next successful call, for
  another title, returns the same two fields, \<open>result\<close> is the same object with the same
  fields after it as before.
\<close>

theorem C8_no_redundant_update:
  assumes "passes_checks s initialPrompt"
    and "fst (fetchSuggestion net (currentPrompt_of s initialPrompt)) = Inr data"
    and "handleSubmit net e initialPrompt s = (s1, tr)"
  shows "(\<forall>old. result s = Some old \<and> font_name (val old) = font_name data
             \<and> reason (val old) = reason data \<longrightarrow> result s1 = result s)
       \<and> (result s1 \<noteq> result s \<longrightarrow> result s1 = Some (Obj (nextAddr s) data))
       \<and> (result s = None \<longrightarrow> result s1 = Some (Obj (nextAddr s) data))
       \<and> (\<forall>old. result s = Some old
             \<and> (font_name (val old) \<noteq> font_name data \<or> reason (val old) \<noteq> reason data) \<longrightarrow>
             result s1 = Some (Obj (nextAddr s) data))
       \<and> map_option val (result s1) = Some data
       \<and> lastPromptRef s1 = Some (currentPrompt_of s initialPrompt)
       \<and> (\<forall>net' e' ip' data'.
             passes_checks s1 ip'
             \<and> fst (fetchSuggestion net' (currentPrompt_of s1 ip')) = Inr data'
             \<and> font_name data' = font_name data \<and> reason data' = reason data \<longrightarrow>
             currentPrompt_of s1 ip' \<noteq> currentPrompt_of s initialPrompt
             \<and> result (fst (handleSubmit net' e' ip' s1)) = result s1)"
proof -
  let ?p = "currentPrompt_of s initialPrompt"
  from handleSubmit_success [OF assms(1,2), of e] assms(3)
  have s1: "s1 = s\<lparr>result := keep_or_replace (result s) (Obj (nextAddr s) data),
        loading := False, error := None, inFlightRef := False, lastPromptRef := Some ?p,
        nextAddr := Suc (nextAddr s)\<rparr>"
    by simp
  have res: "result s1 = keep_or_replace (result s) (Obj (nextAddr s) data)"
    by (simp add: s1)
  have kept: "result s1 = result s"
    if "result s = Some old" and "font_name (val old) = font_name data"
      and "reason (val old) = reason data" for old
    using that by (simp add: res keep_or_replace_same)
  have replaced: "result s1 = Some (Obj (nextAddr s) data)" if "result s1 \<noteq> result s"
    using that by (cases "result s") (auto simp: res keep_or_replace_def split: if_splits)
  have first: "result s1 = Some (Obj (nextAddr s) data)" if "result s = None"
    using that by (simp add: res keep_or_replace_def)
  have differs: "result s1 = Some (Obj (nextAddr s) data)"
    if "result s = Some old"
      and "font_name (val old) \<noteq> font_name data \<or> reason (val old) \<noteq> reason data" for old
    using that by (auto simp: res keep_or_replace_def)
  have last: "lastPromptRef s1 = Some ?p" by (simp add: s1)
  have displayed: "map_option val (result s1) = Some data"
    using keep_or_replace_val [of "result s" "Obj (nextAddr s) data"] by (simp add: res)
  then obtain shown where shown: "result s1 = Some shown" and "val shown = data"
    by (auto simp: map_option_eq_Some)
  then have fields: "font_name (val shown) = font_name data" "reason (val shown) = reason data"
    by simp_all
  have next_call: "currentPrompt_of s1 ip' \<noteq> ?p
      \<and> result (fst (handleSubmit net' e' ip' s1)) = result s1"
    if p: "passes_checks s1 ip'"
      and ok: "fst (fetchSuggestion net' (currentPrompt_of s1 ip')) = Inr data'"
      and same: "font_name data' = font_name data" "reason data' = reason data"
    for net' e' ip' data'
  proof -
    from p last have other: "currentPrompt_of s1 ip' \<noteq> ?p"
      by (auto simp: passes_checks_def)
    have "result (fst (handleSubmit net' e' ip' s1)) =
        keep_or_replace (result s1) (Obj (nextAddr s1) data')"
      by (simp add: handleSubmit_success [OF p ok])
    also have "\<dots> = result s1"
      using fields same by (simp add: shown keep_or_replace_same)
    finally show ?thesis using other by simp
  qed
  from kept replaced first differs displayed last next_call show ?thesis by blast
qed

theorem C8_no_redundant_update_witness:
  "passes_checks initial_state (Some ''Retro Arcade'')
   \<and> fst (fetchSuggestion recovering (currentPrompt_of initial_state (Some ''Retro Arcade''))) =
       Inr \<lparr>font_name = ''Lobster'', reason = ''Playful and bold.''\<rparr>
   \<and> handleSubmit recovering False (Some ''Retro Arcade'') initial_state =
       (suggested_state,
        [Fetch ''Retro Arcade'', Timeout 500, Fetch ''Retro Arcade'', Timeout 1000,
         Fetch ''Retro Arcade''])
   \<and> result initial_state = None
   \<and> result suggested_state =
       Some (Obj 1 \<lparr>font_name = ''Lobster'', reason = ''Playful and bold.''\<rparr>)
   \<and> passes_checks suggested_state (Some ''Space Opera'')
   \<and> fst (fetchSuggestion always_suggesting (currentPrompt_of suggested_state (Some ''Space Opera''))) =
       Inr \<lparr>font_name = ''Lobster'', reason = ''Playful and bold.''\<rparr>
   \<and> result (fst (handleSubmit always_suggesting False (Some ''Space Opera'') suggested_state)) =
       Some (Obj 1 \<lparr>font_name = ''Lobster'', reason = ''Playful and bold.''\<rparr>)
   \<and> fst (fetchSuggestion always_restyling (currentPrompt_of suggested_state (Some ''Space Opera''))) =
       Inr \<lparr>font_name = ''Orbitron'', reason = ''Geometric and futuristic.''\<rparr>
   \<and> result (fst (handleSubmit always_restyling False (Some ''Space Opera'') suggested_state)) =
       Some (Obj 2 \<lparr>font_name = ''Orbitron'', reason = ''Geometric and futuristic.''\<rparr>)"
proof -
  have h2: "fst (fetchSuggestion recovering (currentPrompt_of initial_state (Some ''Retro Arcade''))) =
       Inr \<lparr>font_name = ''Lobster'', reason = ''Playful and bold.''\<rparr>"
    by (simp add: recovering_request)
  have none: "result initial_state = None"
    by (simp add: initial_state_def)
  have p2: "passes_checks suggested_state (Some ''Space Opera'')"
    by (simp add: passes_checks_def currentPrompt_of_def title_of_def trim_def is_ws_def
        suggested_state_def initial_state_def)
  have ok2: "fst (fetchSuggestion always_suggesting
        (currentPrompt_of suggested_state (Some ''Space Opera''))) =
       Inr \<lparr>font_name = ''Lobster'', reason = ''Playful and bold.''\<rparr>"
    by (simp add: suggesting_request)
  have ok3: "fst (fetchSuggestion always_restyling
        (currentPrompt_of suggested_state (Some ''Space Opera''))) =
       Inr \<lparr>font_name = ''Orbitron'', reason = ''Geometric and futuristic.''\<rparr>"
    by (simp add: restyling_request)
  have next2: "nextAddr suggested_state = 2"
    by (simp add: suggested_state_def)
  note first = C8_no_redundant_update [OF passes_initial h2 recovering_run]
  from first none have shown: "result suggested_state =
       Some (Obj (nextAddr initial_state) \<lparr>font_name = ''Lobster'', reason = ''Playful and bold.''\<rparr>)"
    by blast
  then have shown1: "result suggested_state =
       Some (Obj 1 \<lparr>font_name = ''Lobster'', reason = ''Playful and bold.''\<rparr>)"
    by (simp add: initial_state_def)
  from first p2 ok2
  have same: "result (fst (handleSubmit always_suggesting False (Some ''Space Opera'') suggested_state)) =
      result suggested_state"
    by blast
  obtain s3 tr3 where run3:
    "handleSubmit always_restyling False (Some ''Space Opera'') suggested_state = (s3, tr3)"
    by (cases "handleSubmit always_restyling False (Some ''Space Opera'') suggested_state")
  have "font_name (val (Obj 1 \<lparr>font_name = ''Lobster'', reason = ''Playful and bold.''\<rparr>)) \<noteq>
      font_name \<lparr>font_name = ''Orbitron'', reason = ''Geometric and futuristic.''\<rparr>"
    by simp
  with C8_no_redundant_update [OF p2 ok3 run3] shown1
  have "result s3 = Some (Obj (nextAddr suggested_state)
      \<lparr>font_name = ''Orbitron'', reason = ''Geometric and futuristic.''\<rparr>)"
    by blast
  with run3 next2
  have other: "result (fst (handleSubmit always_restyling False (Some ''Space Opera'') suggested_state)) =
       Some (Obj 2 \<lparr>font_name = ''Orbitron'', reason = ''Geometric and futuristic.''\<rparr>)"
    by simp
  from passes_initial h2 recovering_run none shown1 p2 ok2 same ok3 other
  show ?thesis by simp
qed

text \<open>
  C9. A call that passes the three checks ends, whatever the request did, with
  \<open>inFlightRef\<close> and \<open>loading\<close> false. (\<open>handleSubmit\<close> is a total function of the
  network's answers, so such a call ends.)
\<close>

theorem C9_guard_and_loading_cleared:
  assumes "passes_checks s initialPrompt"
  shows "\<not> inFlightRef (fst (handleSubmit net e initialPrompt s))
         \<and> \<not> loading (fst (handleSubmit net e initialPrompt s))"
  using assms resume_clears by (simp add: handleSubmit_passes)

theorem C9_guard_and_loading_cleared_witness:
  "passes_checks initial_state (Some ''Retro Arcade'')
   \<and> \<not> inFlightRef (fst (handleSubmit offline True (Some ''Retro Arcade'') initial_state))
   \<and> \<not> loading (fst (handleSubmit offline True (Some ''Retro Arcade'') initial_state))"
proof -
  have h: "passes_checks initial_state (Some ''Retro Arcade'')"
    by (simp add: passes_checks_def currentPrompt_of_def title_of_def trim_def is_ws_def
        initial_state_def)
  show ?thesis
    using h C9_guard_and_loading_cleared [OF h, of offline True] by simp
qed

text \<open>
  C10. When the retry loop ends without a throw, \<open>response\<close> holds a response, so the
  text built after the loop shows its status and never \<open>Network Error\<close>; for a
  \<open>fetch\<close> that rejects at the last attempt leaves the loop with that throw.
\<close>

theorem C10_response_set_after_loop:
  "(\<forall>response. fst (retry_loop net p 0 None) = Inr response \<longrightarrow>
      (\<exists>r. response = Some r
         \<and> http_error response = ''HTTP error! status: '' @ string_of_nat (status r)
         \<and> http_error response \<noteq> ''HTTP error! status: Network Error''))
   \<and> (\<forall>fetchErr response. net (maxRetries - 1) = Rejects fetchErr \<longrightarrow>
        retry_loop net p (maxRetries - 1) response = (Inl fetchErr, [Fetch p]))"
proof -
  have "\<exists>r. response = Some r
         \<and> http_error response = ''HTTP error! status: '' @ string_of_nat (status r)
         \<and> http_error response \<noteq> ''HTTP error! status: Network Error''"
    if "fst (retry_loop net p 0 None) = Inr response" for response
  proof -
    have "fst (retry_loop net p 0 None) \<noteq> Inr None"
      by (rule retry_loop_response_set) (simp add: maxRetries_def)
    with that obtain r where r: "response = Some r" by (cases response) auto
    have "http_error (Some r) \<noteq> ''HTTP error! status: Network Error''"
      using http_error_status [of r] by (simp add: http_error_def)
    with r show ?thesis by (simp add: http_error_def)
  qed
  moreover have "retry_loop net p (maxRetries - 1) response = (Inl fetchErr, [Fetch p])"
    if "net (maxRetries - 1) = Rejects fetchErr" for fetchErr response
    using refl that by (rule retry_loop_last_reject)
  ultimately show ?thesis by blast
qed

theorem C10_response_set_after_loop_witness:
  "fst (retry_loop always_unavailable ''Retro Arcade'' 0 None) = Inr (Some service_unavailable)
   \<and> http_error (Some service_unavailable) = ''HTTP error! status: 503''
   \<and> offline (maxRetries - 1) = Rejects (Error ''Failed to fetch'')
   \<and> retry_loop offline ''Retro Arcade'' (maxRetries - 1) None =
       (Inl (Error ''Failed to fetch''), [Fetch ''Retro Arcade''])"
proof -
  have h1: "fst (retry_loop always_unavailable ''Retro Arcade'' 0 None) =
      Inr (Some service_unavailable)"
    by (simp add: unavailable_loop)
  have h2: "offline (maxRetries - 1) = Rejects (Error ''Failed to fetch'')"
    by (simp add: offline_def)
  have digits: "string_of_nat (status service_unavailable) = ''503''"
    by (simp add: service_unavailable_def string_of_nat.simps digit_def)
  from C10_response_set_after_loop [of always_unavailable "''Retro Arcade''"] h1
  have "http_error (Some service_unavailable) =
      ''HTTP error! status: '' @ string_of_nat (status service_unavailable)"
    by auto
  moreover from C10_response_set_after_loop [of offline "''Retro Arcade''"] h2
  have "retry_loop offline ''Retro Arcade'' (maxRetries - 1) None =
       (Inl (Error ''Failed to fetch''), [Fetch ''Retro Arcade''])"
    by blast
  ultimately show ?thesis using h1 h2 digits by simp
qed

end
